theory Spec2Isabelle
  imports Main
begin

section \<open>The option store of \<open>src/services/options.ts\<close> and its startup defaulting\<close>

text \<open>
  The development embeds the typed accessor layer of the option service
  (\<open>getOptionOrNull\<close>, \<open>getOption\<close>, \<open>getOptionInt\<close>, \<open>getOptionBool\<close>,
  \<open>setOption\<close>, \<open>createOption\<close>, \<open>getOptionMap\<close>) and the default initializer
  (\<open>defaultOptions\<close>, \<open>getKeyboardDefaultOptions\<close>, \<open>initStartupOptions\<close>).

  JavaScript strings are modelled by \<open>string\<close>; a \<open>char\<close> stands for the code unit of the
  same number, so the strings covered are those over U+0000 .. U+00FF.
\<close>

subsection \<open>Data model\<close>

text \<open>
  The row handed to \<open>new BOption({name, value, isSynced})\<close>. An entity of the registry and
  a row of the \<open>options\<close> table carry the same three fields.
\<close>

record BOption =
  opt_name :: string
  opt_value :: string
  opt_isSynced :: bool

text \<open>
  The ambient state the service works on: the entity registry \<open>becca\<close> (its \<open>loaded\<close> flag
  and the entities \<open>Object.values(becca.options)\<close> enumerates, in that order), the rows of the
  \<open>options\<close> table behind \<open>sql\<close>, whether that table accepts a write, and the lines
  written through \<open>log.info\<close>.
\<close>

record Store =
  becca_loaded :: bool
  becca_options :: "BOption list"
  sql_options :: "BOption list"
  sql_writable :: bool
  log_lines :: "string list"

text \<open>
  The conditions an operation can end in instead of returning. \<open>NotFound n\<close> is the
  \<open>Error\<close> thrown by \<open>getOption\<close>; \<open>ParseError t v n\<close> the one thrown by \<open>getOptionInt\<close>
  (\<open>t\<close> is \<open>integer\<close>) and \<open>getOptionBool\<close> (\<open>t\<close> is \<open>boolean\<close>) for the raw value \<open>v\<close> of
  option \<open>n\<close>; \<open>PersistenceFailure\<close> is a write that the table refused. \<open>message\<close> is the text
  the source builds for the \<open>Error\<close> (none is built for a refused write, whose error
  comes from below the service).
\<close>

datatype Error =
  NotFound string
  | ParseError string string string
  | PersistenceFailure

definition squote :: string where
  "squote = [CHR 0x27]"

fun message :: "Error \<Rightarrow> string" where
  "message (NotFound n) = ''Option '' @ squote @ n @ squote @ '' doesn'' @ squote @ ''t exist''"
| "message (ParseError t v n) =
     ''Could not parse '' @ squote @ v @ squote @ '' into '' @ t @ '' for option '' @ squote @ n @ squote"
| "message PersistenceFailure = ''''"

text \<open>A JavaScript object used as a dictionary from option names to values (\<open>OptionMap\<close>).\<close>

type_synonym OptionMap = "string \<rightharpoonup> string"

subsection \<open>Collaborators that are not part of the sources at hand\<close>

text \<open>
  Modelled from the spec: \<open>becca.getOption\<close> (the registry lookup by name; the class
  \<open>Becca\<close> is missing). The spec leaves reads of a duplicated name unspecified; the
  lookup returns the first entity of that name.
\<close>

definition becca_getOption :: "Store \<Rightarrow> string \<Rightarrow> BOption option" where
  "becca_getOption s n = find (\<lambda>opt. opt_name opt = n) (becca_options s)"

text \<open>
  Modelled from the spec: \<open>sql.getRow\<close> on
  \<open>SELECT * FROM options WHERE name = ?\<close> (the module \<open>sql\<close> is missing): the first row of
  that name, if any.
\<close>

definition sql_getRow :: "Store \<Rightarrow> string \<Rightarrow> BOption option" where
  "sql_getRow s n = find (\<lambda>row. opt_name row = n) (sql_options s)"

text \<open>
  Modelled from the spec: \<open>save()\<close> of a freshly constructed \<open>BOption\<close> (the class
  \<open>BOption\<close> is missing). Following the spec, creation "unconditionally inserts a new
  option", "persists synchronously", does "not defend against duplicate names", and can
  only fail with a persistence failure: the entity joins the registry, its row joins the
  table, whatever is there already.
\<close>

definition save_new :: "BOption \<Rightarrow> Store \<Rightarrow> Error + Store" where
  "save_new ent s =
     (if sql_writable s
      then Inr (s\<lparr>becca_options := becca_options s @ [ent],
                  sql_options := sql_options s @ [ent]\<rparr>)
      else Inl PersistenceFailure)"

text \<open>
  \<open>replace_first n ent xs\<close> puts \<open>ent\<close> in the place of the first element of \<open>xs\<close> named
  \<open>n\<close>, and \<open>upsert_row\<close> writes a row over the first row of its name or adds it.
\<close>

fun replace_first :: "string \<Rightarrow> BOption \<Rightarrow> BOption list \<Rightarrow> BOption list" where
  "replace_first n ent [] = []"
| "replace_first n ent (x # xs) =
     (if opt_name x = n then ent # xs else x # replace_first n ent xs)"

definition upsert_row :: "BOption \<Rightarrow> BOption list \<Rightarrow> BOption list" where
  "upsert_row ent rows =
     (if find (\<lambda>row. opt_name row = opt_name ent) rows = None then rows @ [ent]
      else replace_first (opt_name ent) ent rows)"

text \<open>
  Modelled from the spec: \<open>save()\<close> of an entity that \<open>becca.getOption\<close> returned and
  whose \<open>value\<close> field has just been assigned (the class \<open>BOption\<close> is missing). The entity
  is the first of its name in the registry, so the assignment shows there; the write
  "persists immediately" and can only fail with a persistence failure.
\<close>

definition save_existing :: "BOption \<Rightarrow> Store \<Rightarrow> Error + Store" where
  "save_existing ent s =
     (if sql_writable s
      then Inr (s\<lparr>becca_options := replace_first (opt_name ent) ent (becca_options s),
                  sql_options := upsert_row ent (sql_options s)\<rparr>)
      else Inl PersistenceFailure)"

subsection \<open>The option service\<close>

text \<open>\<open>getOptionOrNull\<close>: \<open>None\<close> is \<open>null\<close>.\<close>

definition getOptionOrNull :: "Store \<Rightarrow> string \<Rightarrow> string option" where
  "getOptionOrNull s n =
     (let option = (if becca_loaded s then becca_getOption s n else sql_getRow s n)
      in case option of Some opt \<Rightarrow> Some (opt_value opt) | None \<Rightarrow> None)"

definition getOption :: "Store \<Rightarrow> string \<Rightarrow> Error + string" where
  "getOption s n =
     (case getOptionOrNull s n of
        None \<Rightarrow> Inl (NotFound n)
      | Some val \<Rightarrow> Inr val)"

text \<open>
  \<open>getOptionBool\<close>: a stored value is always a string, so of the test
  \<open>typeof val !== "string" || !['true', 'false'].includes(val)\<close> the second disjunct decides.
\<close>

definition getOptionBool :: "Store \<Rightarrow> string \<Rightarrow> Error + bool" where
  "getOptionBool s n =
     (case getOption s n of
        Inl e \<Rightarrow> Inl e
      | Inr val \<Rightarrow>
          if val \<notin> set [''true'', ''false'']
          then Inl (ParseError ''boolean'' val n)
          else Inr (val = ''true''))"

definition createOption :: "string \<Rightarrow> string \<Rightarrow> bool \<Rightarrow> Store \<Rightarrow> Error + Store" where
  "createOption n v synced s =
     save_new \<lparr>opt_name = n, opt_value = v, opt_isSynced = synced\<rparr> s"

definition setOption :: "string \<Rightarrow> string \<Rightarrow> Store \<Rightarrow> Error + Store" where
  "setOption n v s =
     (case becca_getOption s n of
        Some option \<Rightarrow> save_existing (option\<lparr>opt_value := v\<rparr>) s
      | None \<Rightarrow> createOption n v False s)"

subsection \<open>Numbers and \<open>parseInt\<close>\<close>

text \<open>
  The Numbers that \<open>getOptionInt\<close> can return: an integral value, an infinity, or \<open>NaN\<close>.
  (\<open>Finite 0\<close> stands for both zeros; a caller-supplied default is taken to be one of
  these too.)
\<close>

datatype Number = Finite int | PosInfinity | NegInfinity | NaN

definition isNaN :: "Number \<Rightarrow> bool" where
  "isNaN x = (x = NaN)"

fun bitLength :: "int \<Rightarrow> nat" where
  "bitLength n = (if n \<le> 0 then 0 else Suc (bitLength (n div 2)))"

declare bitLength.simps [simp del]

text \<open>
  The double nearest to a natural number (ties to the even significand), \<open>None\<close> when
  that is beyond the largest double. Up to \<open>2 ^ 53\<close> every natural number is a double.
\<close>

definition roundToDouble :: "int \<Rightarrow> int option" where
  "roundToDouble n =
     (if n < 2 ^ 53 then Some n
      else let e = bitLength n - 53;
               q = n div 2 ^ e;
               r = n mod 2 ^ e;
               q' = (if 2 * r > 2 ^ e \<or> (2 * r = 2 ^ e \<and> odd q) then q + 1 else q);
               v = q' * 2 ^ e
           in if v \<ge> 2 ^ 1024 then None else Some v)"

text \<open>
  The Number for \<open>sign \<times> mathInt\<close>, with \<open>sign\<close> given as "is negative" and
  \<open>mathInt\<close> not negative.
\<close>

definition toNumber :: "bool \<Rightarrow> int \<Rightarrow> Number" where
  "toNumber negative mathInt =
     (case roundToDouble mathInt of
        None \<Rightarrow> (if negative then NegInfinity else PosInfinity)
      | Some v \<Rightarrow> Finite (if negative then - v else v))"

text \<open>The white space that \<open>parseInt\<close> skips, as far as it lies below U+0100.\<close>

definition isStrWhiteSpaceChar :: "char \<Rightarrow> bool" where
  "isStrWhiteSpaceChar c =
     (c \<in> set [CHR 0x09, CHR 0x0A, CHR 0x0B, CHR 0x0C, CHR 0x0D, CHR 0x20, CHR 0xA0])"

definition digitValue :: "char \<Rightarrow> int option" where
  "digitValue c =
     (let k = (of_char c :: int) in
      if 48 \<le> k \<and> k \<le> 57 then Some (k - 48)
      else if 97 \<le> k \<and> k \<le> 122 then Some (k - 87)
      else if 65 \<le> k \<and> k \<le> 90 then Some (k - 55)
      else None)"

definition isRadixDigit :: "int \<Rightarrow> char \<Rightarrow> bool" where
  "isRadixDigit R c = (case digitValue c of Some d \<Rightarrow> d < R | None \<Rightarrow> False)"

fun radixValue :: "int \<Rightarrow> int \<Rightarrow> string \<Rightarrow> int" where
  "radixValue R acc [] = acc"
| "radixValue R acc (c # cs) =
     radixValue R (acc * R + (case digitValue c of Some d \<Rightarrow> d | None \<Rightarrow> 0)) cs"

text \<open>
  The first steps of \<open>parseInt\<close> in ECMA-262: leading white space is trimmed, a leading
  \<open>-\<close> makes the sign negative, a leading \<open>+\<close> or \<open>-\<close> is removed, and, no radix being
  given, a leading \<open>0x\<close> or \<open>0X\<close> selects radix 16.
\<close>

definition trimStart :: "string \<Rightarrow> string" where
  "trimStart str = dropWhile isStrWhiteSpaceChar str"

definition isNegative :: "string \<Rightarrow> bool" where
  "isNegative S = (S \<noteq> [] \<and> hd S = CHR ''-'')"

definition stripSign :: "string \<Rightarrow> string" where
  "stripSign S = (if S \<noteq> [] \<and> (hd S = CHR ''+'' \<or> hd S = CHR ''-'') then tl S else S)"

definition hasHexPrefix :: "string \<Rightarrow> bool" where
  "hasHexPrefix S = (take 2 S = ''0x'' \<or> take 2 S = ''0X'')"

text \<open>
  \<open>parseInt(string)\<close> with no radix: after those steps the digits of the radix are kept up
  to the first character that is not one, and the answer is \<open>NaN\<close> if none is kept.
\<close>

definition parseInt :: "string \<Rightarrow> Number" where
  "parseInt inputString =
     (let S = trimStart inputString;
          negative = isNegative S;
          S1 = stripSign S;
          R = (if hasHexPrefix S1 then 16 else 10);
          S2 = (if hasHexPrefix S1 then drop 2 S1 else S1);
          Z = takeWhile (isRadixDigit R) S2
      in if Z = [] then NaN else toNumber negative (radixValue R 0 Z))"

definition getOptionInt :: "Store \<Rightarrow> string \<Rightarrow> Number option \<Rightarrow> Error + Number" where
  "getOptionInt s n defaultValue =
     (case getOption s n of
        Inl e \<Rightarrow> Inl e
      | Inr val \<Rightarrow>
          (let intVal = parseInt val in
           if isNaN intVal then
             (case defaultValue of
                None \<Rightarrow> Inl (ParseError ''integer'' val n)
              | Some d \<Rightarrow> Inr d)
           else Inr intVal))"

subsection \<open>\<open>getOptionMap\<close> and the \<open>in\<close> operator\<close>

text \<open>
  \<open>map[option.name] = option.value\<close> on an object created by \<open>{}\<close>: an own property is
  written, except for the name \<open>__proto__\<close>, where the inherited setter is run and ignores
  a string.
\<close>

definition assignProperty :: "OptionMap \<Rightarrow> string \<Rightarrow> string \<Rightarrow> OptionMap" where
  "assignProperty m k v = (if k = ''__proto__'' then m else m(k \<mapsto> v))"

fun fillOptionMap :: "OptionMap \<Rightarrow> BOption list \<Rightarrow> OptionMap" where
  "fillOptionMap m [] = m"
| "fillOptionMap m (opt # opts) =
     fillOptionMap (assignProperty m (opt_name opt) (opt_value opt)) opts"

definition getOptionMap :: "Store \<Rightarrow> OptionMap" where
  "getOptionMap s = fillOptionMap Map.empty (becca_options s)"

text \<open>
  \<open>name in optionsMap\<close> holds for an own property and for a property inherited from
  \<open>Object.prototype\<close>.
\<close>

definition objectPrototypeKeys :: "string list" where
  "objectPrototypeKeys =
     [''constructor'', ''__defineGetter__'', ''__defineSetter__'', ''hasOwnProperty'',
      ''__lookupGetter__'', ''__lookupSetter__'', ''isPrototypeOf'', ''propertyIsEnumerable'',
      ''toString'', ''valueOf'', ''__proto__'', ''toLocaleString'']"

definition js_in :: "string \<Rightarrow> OptionMap \<Rightarrow> bool" where
  "js_in n m = (m n \<noteq> None \<or> n \<in> set objectPrototypeKeys)"

subsection \<open>\<open>JSON.stringify\<close> on the values the initializer serialises\<close>

definition hexDigit :: "int \<Rightarrow> char" where
  "hexDigit d = (if d < 10 then char_of (48 + d) else char_of (87 + d))"

definition quoteJSONChar :: "char \<Rightarrow> string" where
  \<open>quoteJSONChar c =
     (let k = (of_char c :: int) in
      if k = 8 then [CHR 0x5C, CHR ''b'']
      else if k = 9 then [CHR 0x5C, CHR ''t'']
      else if k = 10 then [CHR 0x5C, CHR ''n'']
      else if k = 12 then [CHR 0x5C, CHR ''f'']
      else if k = 13 then [CHR 0x5C, CHR ''r'']
      else if c = CHR ''"'' then [CHR 0x5C, CHR ''"'']
      else if c = CHR 0x5C then [CHR 0x5C, CHR 0x5C]
      else if k < 32 then [CHR 0x5C, CHR ''u'', CHR ''0'', CHR ''0'', hexDigit (k div 16), hexDigit (k mod 16)]
      else [c])\<close>

definition quoteJSONString :: "string \<Rightarrow> string" where
  \<open>quoteJSONString str = ''"'' @ concat (map quoteJSONChar str) @ ''"''\<close>

fun joinWithComma :: "string list \<Rightarrow> string" where
  "joinWithComma [] = []"
| "joinWithComma [x] = x"
| "joinWithComma (x # y # ys) = x @ '','' @ joinWithComma (y # ys)"

text \<open>\<open>JSON.stringify\<close> of an array of strings.\<close>

definition stringifyStrings :: "string list \<Rightarrow> string" where
  "stringifyStrings xs = ''['' @ joinWithComma (map quoteJSONString xs) @ '']''"

text \<open>\<open>JSON.stringify([{ notePath: notePath, active: true }])\<close>.\<close>

definition stringifyNoteContexts :: "string \<Rightarrow> string" where
  \<open>stringifyNoteContexts notePath =
     ''[{"notePath":'' @ quoteJSONString notePath @ '',"active":true}]''\<close>

subsection \<open>The default initializer\<close>

text \<open>
  \<open>DefaultOption\<close>: the \<open>value\<close> is a string or a function of the option map
  (\<open>typeof value === "function"\<close> tells them apart).
\<close>

datatype DefaultValue = Literal string | Derived "OptionMap \<Rightarrow> string"

record DefaultOption =
  def_name :: string
  def_value :: DefaultValue
  def_isSynced :: bool

text \<open>
  What the initializer reads from its surroundings: \<open>process.platform\<close>, the two
  environment variables (\<open>None\<close> when unset), and the list that
  \<open>keyboardActions.getDefaultKeyboardActions()\<close> returns (the module is missing; an entry
  without \<open>actionName\<close> is a separator).
\<close>

record KeyboardAction =
  actionName :: "string option"
  defaultShortcuts :: "string list"

record Env =
  platform :: string
  TRILIUM_START_NOTE_ID :: "string option"
  TRILIUM_SAFE_MODE :: "string option"
  defaultKeyboardActions :: "KeyboardAction list"

text \<open>Truthiness of a value that is a string or \<open>undefined\<close>.\<close>

definition truthy :: "string option \<Rightarrow> bool" where
  "truthy x = (case x of None \<Rightarrow> False | Some str \<Rightarrow> str \<noteq> [])"

text \<open>The function given as the \<open>value\<close> of \<open>codeBlockTheme\<close>.\<close>

definition codeBlockThemeDefault :: "OptionMap \<Rightarrow> string" where
  "codeBlockThemeDefault optionsMap =
     (if optionsMap ''theme'' = Some ''light''
      then ''default:stackoverflow-light''
      else ''default:stackoverflow-dark'')"

text \<open>The descriptor of \<open>codeBlockTheme\<close>, the one entry of the table whose value is a function.\<close>

definition codeBlockThemeOption :: DefaultOption where
  "codeBlockThemeOption =
     \<lparr>def_name = ''codeBlockTheme'', def_value = Derived codeBlockThemeDefault,
      def_isSynced = False\<rparr>"

text \<open>A descriptor whose value is a string.\<close>

definition lit :: "string \<Rightarrow> string \<Rightarrow> bool \<Rightarrow> DefaultOption" where
  "lit n v synced = \<lparr>def_name = n, def_value = Literal v, def_isSynced = synced\<rparr>"

definition allowedHtmlTags :: "string list" where
  "allowedHtmlTags =
     [''h1'', ''h2'', ''h3'', ''h4'', ''h5'', ''h6'', ''blockquote'', ''p'', ''a'', ''ul'', ''ol'',
      ''li'', ''b'', ''i'', ''strong'', ''em'', ''strike'', ''s'', ''del'', ''abbr'', ''code'', ''hr'', ''br'', ''div'',
      ''table'', ''thead'', ''caption'', ''tbody'', ''tfoot'', ''tr'', ''th'', ''td'', ''pre'', ''section'', ''img'',
      ''figure'', ''figcaption'', ''span'', ''label'', ''input'', ''details'', ''summary'', ''address'', ''aside'', ''footer'',
      ''header'', ''hgroup'', ''main'', ''nav'', ''dl'', ''dt'', ''menu'', ''bdi'', ''bdo'', ''dfn'', ''kbd'', ''mark'', ''q'', ''time'',
      ''var'', ''wbr'', ''area'', ''map'', ''track'', ''video'', ''audio'', ''picture'', ''del'', ''ins'',
      ''en-media'',
      ''acronym'', ''article'', ''big'', ''button'', ''cite'', ''col'', ''colgroup'', ''data'', ''dd'',
      ''fieldset'', ''form'', ''legend'', ''meter'', ''noscript'', ''option'', ''progress'', ''rp'',
      ''samp'', ''small'', ''sub'', ''sup'', ''template'', ''textarea'', ''tt'']"

definition defaultOptions :: "string \<Rightarrow> DefaultOption list" where
  \<open>defaultOptions process_platform =
     [lit ''revisionSnapshotTimeInterval'' ''600'' True,
      lit ''revisionSnapshotNumberLimit'' ''-1'' True,
      lit ''protectedSessionTimeout'' ''600'' True,
      lit ''zoomFactor'' (if process_platform = ''win32'' then ''0.9'' else ''1.0'') False,
      lit ''overrideThemeFonts'' ''false'' False,
      lit ''mainFontFamily'' ''theme'' False,
      lit ''mainFontSize'' ''100'' False,
      lit ''treeFontFamily'' ''theme'' False,
      lit ''treeFontSize'' ''100'' False,
      lit ''detailFontFamily'' ''theme'' False,
      lit ''detailFontSize'' ''110'' False,
      lit ''monospaceFontFamily'' ''theme'' False,
      lit ''monospaceFontSize'' ''110'' False,
      lit ''spellCheckEnabled'' ''true'' False,
      lit ''spellCheckLanguageCode'' ''en-US'' False,
      lit ''imageMaxWidthHeight'' ''2000'' True,
      lit ''imageJpegQuality'' ''75'' True,
      lit ''autoFixConsistencyIssues'' ''true'' False,
      lit ''vimKeymapEnabled'' ''false'' False,
      lit ''codeLineWrapEnabled'' ''true'' False,
      lit ''codeNotesMimeTypes'' ''["text/x-csrc","text/x-c++src","text/x-csharp","text/css","text/x-go","text/x-groovy","text/x-haskell","text/html","message/http","text/x-java","application/javascript;env=frontend","application/javascript;env=backend","application/json","text/x-kotlin","text/x-markdown","text/x-perl","text/x-php","text/x-python","text/x-ruby",null,"text/x-sql","text/x-sqlite;schema=trilium","text/x-swift","text/xml","text/x-yaml","text/x-sh"]'' True,
      lit ''leftPaneWidth'' ''25'' False,
      lit ''leftPaneVisible'' ''true'' False,
      lit ''rightPaneWidth'' ''25'' False,
      lit ''rightPaneVisible'' ''true'' False,
      lit ''nativeTitleBarVisible'' ''false'' False,
      lit ''eraseEntitiesAfterTimeInSeconds'' ''604800'' True,
      lit ''hideArchivedNotes_main'' ''false'' False,
      lit ''debugModeEnabled'' ''false'' False,
      lit ''headingStyle'' ''underline'' True,
      lit ''autoCollapseNoteTree'' ''true'' True,
      lit ''autoReadonlySizeText'' ''10000'' False,
      lit ''autoReadonlySizeCode'' ''30000'' False,
      lit ''dailyBackupEnabled'' ''true'' False,
      lit ''weeklyBackupEnabled'' ''true'' False,
      lit ''monthlyBackupEnabled'' ''true'' False,
      lit ''maxContentWidth'' ''1200'' False,
      lit ''compressImages'' ''true'' True,
      lit ''downloadImagesAutomatically'' ''true'' True,
      lit ''minTocHeadings'' ''5'' True,
      lit ''highlightsList'' ''["bold","italic","underline","color","bgColor"]'' True,
      lit ''checkForUpdates'' ''true'' True,
      lit ''disableTray'' ''false'' False,
      lit ''eraseUnusedAttachmentsAfterSeconds'' ''2592000'' True,
      lit ''customSearchEngineName'' ''DuckDuckGo'' True,
      lit ''customSearchEngineUrl'' ''https://duckduckgo.com/?q={keyword}'' True,
      lit ''promotedAttributesOpenInRibbon'' ''true'' True,
      lit ''editedNotesOpenInRibbon'' ''true'' True,
      lit ''locale'' ''en'' True,
      lit ''firstDayOfWeek'' ''1'' True,
      codeBlockThemeOption,
      lit ''codeBlockWordWrap'' ''false'' True,
      lit ''textNoteEditorType'' ''ckeditor-balloon'' True,
      lit ''textNoteEditorMultilineToolbar'' ''false'' True,
      lit ''layoutOrientation'' ''vertical'' False,
      lit ''backgroundEffects'' ''false'' False,
      lit ''allowedHtmlTags'' (stringifyStrings allowedHtmlTags) True]\<close>

text \<open>
  \<open>charAt(0).toUpperCase()\<close>; the action names are identifiers, and on a letter
  \<open>a\<close> .. \<open>z\<close> the upper case is the code unit 32 below (other code units below U+0080
  stay as they are).
\<close>

definition toUpperCase :: "char \<Rightarrow> char" where
  "toUpperCase c =
     (let k = (of_char c :: int) in if 97 \<le> k \<and> k \<le> 122 then char_of (k - 32) else c)"

definition keyboardOptionName :: "string \<Rightarrow> string" where
  "keyboardOptionName an = ''keyboardShortcuts'' @ map toUpperCase (take 1 an) @ drop 1 an"

definition getKeyboardDefaultOptions :: "KeyboardAction list \<Rightarrow> DefaultOption list" where
  "getKeyboardDefaultOptions kas =
     map (\<lambda>ka. \<lparr>def_name = keyboardOptionName (case actionName ka of Some an \<Rightarrow> an | None \<Rightarrow> []),
                def_value = Literal (stringifyStrings (defaultShortcuts ka)),
                def_isSynced = False\<rparr>)
       (filter (\<lambda>ka. truthy (actionName ka)) kas)"

definition resolveValue :: "DefaultValue \<Rightarrow> OptionMap \<Rightarrow> string" where
  "resolveValue v optionsMap = (case v of Derived f \<Rightarrow> f optionsMap | Literal str \<Rightarrow> str)"

definition log_info :: "string \<Rightarrow> Store \<Rightarrow> Store" where
  "log_info line s = s\<lparr>log_lines := log_lines s @ [line]\<rparr>"

definition createdMessage :: "string \<Rightarrow> string \<Rightarrow> string" where
  \<open>createdMessage n resolvedValue =
     ''Created option "'' @ n @ ''" with default value "'' @ resolvedValue @ ''"''\<close>

text \<open>
  The \<open>for\<close> loop of \<open>initStartupOptions\<close> over the remaining descriptors; \<open>optionsMap\<close> is
  the map read before the loop. A failed write ends the loop, as the exception does.
\<close>

fun createMissingOptions :: "OptionMap \<Rightarrow> DefaultOption list \<Rightarrow> Store \<Rightarrow> Error + Store" where
  "createMissingOptions optionsMap [] s = Inr s"
| "createMissingOptions optionsMap (d # ds) s =
     (if \<not> js_in (def_name d) optionsMap then
        (let resolvedValue = resolveValue (def_value d) optionsMap in
         case createOption (def_name d) resolvedValue (def_isSynced d) s of
           Inl e \<Rightarrow> Inl e
         | Inr s' \<Rightarrow>
             createMissingOptions optionsMap ds
               (log_info (createdMessage (def_name d) resolvedValue) s'))
      else createMissingOptions optionsMap ds s)"

definition allDefaultOptions :: "Env \<Rightarrow> DefaultOption list" where
  "allDefaultOptions env =
     defaultOptions (platform env) @ getKeyboardDefaultOptions (defaultKeyboardActions env)"

text \<open>
  The value written when the environment asks for a start note or for safe mode:
  \<open>JSON.stringify([{ notePath: process.env.TRILIUM_START_NOTE_ID || 'root', active: true }])\<close>.
\<close>

definition startNoteContexts :: "Env \<Rightarrow> string" where
  "startNoteContexts env =
     stringifyNoteContexts
       (case TRILIUM_START_NOTE_ID env of
          Some noteId \<Rightarrow> if noteId \<noteq> [] then noteId else ''root''
        | None \<Rightarrow> ''root'')"

definition initStartupOptions :: "Env \<Rightarrow> Store \<Rightarrow> Error + Store" where
  "initStartupOptions env s =
     (let optionsMap = getOptionMap s in
      case createMissingOptions optionsMap (allDefaultOptions env) s of
        Inl e \<Rightarrow> Inl e
      | Inr s' \<Rightarrow>
          if truthy (TRILIUM_START_NOTE_ID env) \<or> truthy (TRILIUM_SAFE_MODE env)
          then setOption ''openNoteContexts'' (startNoteContexts env) s'
          else Inr s')"

subsection \<open>Vocabulary of the statements\<close>

text \<open>
  The records a reader of the store is served from: the registry when it is loaded, the
  table otherwise (the two branches of \<open>getOptionOrNull\<close>).
\<close>

definition optionRecords :: "Store \<Rightarrow> BOption list" where
  "optionRecords s = (if becca_loaded s then becca_options s else sql_options s)"

definition mkOption :: "string \<Rightarrow> string \<Rightarrow> bool \<Rightarrow> BOption" where
  "mkOption n v synced = \<lparr>opt_name = n, opt_value = v, opt_isSynced = synced\<rparr>"

text \<open>How many records of a list carry a name.\<close>

definition namedCount :: "string \<Rightarrow> BOption list \<Rightarrow> nat" where
  "namedCount n opts = length (filter (\<lambda>opt. opt_name opt = n) opts)"

text \<open>
  The descriptors the loop of \<open>initStartupOptions\<close> acts on for a map \<open>m\<close>, and the
  entity and the log line it produces for each of them.
\<close>

definition missingDefaults :: "OptionMap \<Rightarrow> DefaultOption list \<Rightarrow> DefaultOption list" where
  "missingDefaults m ds = filter (\<lambda>d. \<not> js_in (def_name d) m) ds"

definition defaultEntity :: "OptionMap \<Rightarrow> DefaultOption \<Rightarrow> BOption" where
  "defaultEntity m d = mkOption (def_name d) (resolveValue (def_value d) m) (def_isSynced d)"

definition defaultLogLine :: "OptionMap \<Rightarrow> DefaultOption \<Rightarrow> string" where
  "defaultLogLine m d = createdMessage (def_name d) (resolveValue (def_value d) m)"

text \<open>
  Following the spec's words, for comparison with \<open>parseInt\<close> and \<open>getOptionInt\<close>: the
  stored string "parsed as a base-10 integer", read generously (leading white space, a
  sign, then the longest run of decimal digits), and the accessor built on that reading.
\<close>

definition spec_parseBase10 :: "string \<Rightarrow> Number" where
  "spec_parseBase10 str =
     (let S = trimStart str;
          Z = takeWhile (isRadixDigit 10) (stripSign S)
      in if Z = [] then NaN else toNumber (isNegative S) (radixValue 10 0 Z))"

definition spec_getOptionInt :: "Store \<Rightarrow> string \<Rightarrow> Number option \<Rightarrow> Error + Number" where
  "spec_getOptionInt s n defaultValue =
     (case getOption s n of
        Inl e \<Rightarrow> Inl e
      | Inr val \<Rightarrow>
          (if spec_parseBase10 val = NaN then
             (case defaultValue of
                None \<Rightarrow> Inl (ParseError ''integer'' val n)
              | Some d \<Rightarrow> Inr d)
           else Inr (spec_parseBase10 val)))"

subsection \<open>Concrete stores and surroundings\<close>

definition exampleStore :: Store where
  "exampleStore =
     \<lparr>becca_loaded = True,
      becca_options =
        [mkOption ''theme'' ''next'' False, mkOption ''spellCheckEnabled'' ''true'' False,
         mkOption ''compressImages'' ''false'' True, mkOption ''disableTray'' ''1'' False,
         mkOption ''checkForUpdates'' ''True'' True,
         mkOption ''maxContentWidth'' ''42'' False, mkOption ''minTocHeadings'' ''abc'' True,
         mkOption ''mainFontSize'' ''42abc'' False, mkOption ''treeFontSize'' ''0x10'' False],
      sql_options = [],
      sql_writable = True,
      log_lines = []\<rparr>"


text \<open>
  A loaded, empty store; the same store after \<open>createOption('theme', 'light', false)\<close> and
  after \<open>createOption('theme', 'dark', false)\<close>.
\<close>

definition emptyStore :: Store where
  "emptyStore =
     \<lparr>becca_loaded = True, becca_options = [], sql_options = [], sql_writable = True,
      log_lines = []\<rparr>"

definition lightStore :: Store where
  "lightStore =
     \<lparr>becca_loaded = True, becca_options = [mkOption ''theme'' ''light'' False],
      sql_options = [mkOption ''theme'' ''light'' False], sql_writable = True, log_lines = []\<rparr>"

definition darkStore :: Store where
  "darkStore =
     \<lparr>becca_loaded = True, becca_options = [mkOption ''theme'' ''dark'' False],
      sql_options = [mkOption ''theme'' ''dark'' False], sql_writable = True, log_lines = []\<rparr>"

text \<open>Surroundings with safe mode requested, one keyboard action and one separator.\<close>

definition exampleEnv :: Env where
  "exampleEnv =
     \<lparr>platform = ''linux'',
      TRILIUM_START_NOTE_ID = None,
      TRILIUM_SAFE_MODE = Some ''1'',
      defaultKeyboardActions =
        [\<lparr>actionName = Some ''backInNoteHistory'', defaultShortcuts = [''Alt+Left'']\<rparr>,
         \<lparr>actionName = None, defaultShortcuts = []\<rparr>]\<rparr>"

text \<open>
  A table in which a literal default for \<open>theme\<close> comes before the derived default of
  \<open>codeBlockTheme\<close>.
\<close>

definition themeThenCodeBlockTheme :: "DefaultOption list" where
  "themeThenCodeBlockTheme = [lit ''theme'' ''light'' False, codeBlockThemeOption]"

section \<open>Properties of the accessors\<close>

subsection \<open>Lookups\<close>

lemma find_None_names: "find (\<lambda>opt. opt_name opt = n) xs = None \<longleftrightarrow> n \<notin> opt_name ` set xs"
  by (induction xs) auto

lemma find_Some_named:
  "find (\<lambda>opt. opt_name opt = n) xs = Some x \<Longrightarrow> x \<in> set xs \<and> opt_name x = n"
  by (induction xs) (auto split: if_splits)

lemma find_append_last:
  "find P (xs @ [x]) = (case find P xs of Some y \<Rightarrow> Some y | None \<Rightarrow> if P x then Some x else None)"
  by (induction xs) auto

lemma getOptionOrNull_find:
  "getOptionOrNull s n = map_option opt_value (find (\<lambda>opt. opt_name opt = n) (optionRecords s))"
  by (simp add: getOptionOrNull_def optionRecords_def becca_getOption_def sql_getRow_def
      split: option.splits)

text \<open>
  C2. For a name that no record of the store carries, \<open>getOptionOrNull\<close> returns
  \<open>null\<close> (it does not throw) and \<open>getOption\<close> fails with \<open>NotFound\<close> for that name. For
  a name that a record carries, both return the value of a stored record of that name, and
  it is the value of the record when one record only carries the name.
\<close>

theorem getOption_absent_or_present:
  "(n \<notin> opt_name ` set (optionRecords s) \<longrightarrow>
      getOptionOrNull s n = None \<and> getOption s n = Inl (NotFound n)) \<and>
   (n \<in> opt_name ` set (optionRecords s) \<longrightarrow>
      (\<exists>opt \<in> set (optionRecords s). opt_name opt = n \<and>
          getOptionOrNull s n = Some (opt_value opt) \<and> getOption s n = Inr (opt_value opt))) \<and>
   (\<forall>opt \<in> set (optionRecords s).
       opt_name opt = n \<and> (\<forall>other \<in> set (optionRecords s). opt_name other = n \<longrightarrow> other = opt) \<longrightarrow>
       getOptionOrNull s n = Some (opt_value opt) \<and> getOption s n = Inr (opt_value opt))"
proof (intro conjI impI ballI)
  assume "n \<notin> opt_name ` set (optionRecords s)"
  then have "find (\<lambda>opt. opt_name opt = n) (optionRecords s) = None"
    by (simp add: find_None_names)
  then show "getOptionOrNull s n = None" "getOption s n = Inl (NotFound n)"
    by (simp_all add: getOptionOrNull_find getOption_def)
next
  assume "n \<in> opt_name ` set (optionRecords s)"
  then obtain x where x: "find (\<lambda>opt. opt_name opt = n) (optionRecords s) = Some x"
    using find_None_names [of n "optionRecords s"]
    by (cases "find (\<lambda>opt. opt_name opt = n) (optionRecords s)") auto
  from find_Some_named [OF x] x
  show "\<exists>opt \<in> set (optionRecords s). opt_name opt = n \<and>
          getOptionOrNull s n = Some (opt_value opt) \<and> getOption s n = Inr (opt_value opt)"
    by (auto simp: getOptionOrNull_find getOption_def)
next
  fix opt
  assume opt: "opt \<in> set (optionRecords s)"
    and u: "opt_name opt = n \<and> (\<forall>other \<in> set (optionRecords s). opt_name other = n \<longrightarrow> other = opt)"
  then have "n \<in> opt_name ` set (optionRecords s)" by auto
  then obtain x where x: "find (\<lambda>opt. opt_name opt = n) (optionRecords s) = Some x"
    using find_None_names [of n "optionRecords s"]
    by (cases "find (\<lambda>opt. opt_name opt = n) (optionRecords s)") auto
  from find_Some_named [OF x] u have "x = opt" by auto
  with x show "getOptionOrNull s n = Some (opt_value opt)" "getOption s n = Inr (opt_value opt)"
    by (simp_all add: getOptionOrNull_find getOption_def)
qed

text \<open>
  On \<open>exampleStore\<close>: \<open>locale\<close> is absent, \<open>theme\<close> is stored once with the value \<open>next\<close>.
\<close>

theorem getOption_absent_or_present_witness:
  "getOptionOrNull exampleStore ''locale'' = None \<and>
   getOption exampleStore ''locale'' = Inl (NotFound ''locale'') \<and>
   getOptionOrNull exampleStore ''theme'' = Some ''next'' \<and>
   getOption exampleStore ''theme'' = Inr ''next''"
proof -
  have absent: "''locale'' \<notin> opt_name ` set (optionRecords exampleStore)"
    by (simp add: optionRecords_def exampleStore_def mkOption_def)
  have present: "mkOption ''theme'' ''next'' False \<in> set (optionRecords exampleStore)"
    by (simp add: optionRecords_def exampleStore_def)
  have unique: "opt_name (mkOption ''theme'' ''next'' False) = ''theme'' \<and>
     (\<forall>other \<in> set (optionRecords exampleStore).
        opt_name other = ''theme'' \<longrightarrow> other = mkOption ''theme'' ''next'' False)"
    by (simp add: optionRecords_def exampleStore_def mkOption_def)
  from getOption_absent_or_present [of "''locale''" exampleStore] absent
  have 1: "getOptionOrNull exampleStore ''locale'' = None \<and>
           getOption exampleStore ''locale'' = Inl (NotFound ''locale'')"
    by blast
  from getOption_absent_or_present [of "''theme''" exampleStore] present unique
  have 2: "getOptionOrNull exampleStore ''theme'' = Some (opt_value (mkOption ''theme'' ''next'' False)) \<and>
           getOption exampleStore ''theme'' = Inr (opt_value (mkOption ''theme'' ''next'' False))"
    by blast
  from 1 2 show ?thesis by (simp add: mkOption_def)
qed

lemma exampleStore_getOption:
  "getOption exampleStore ''maxContentWidth'' = Inr ''42''"
  "getOption exampleStore ''minTocHeadings'' = Inr ''abc''"
  "getOption exampleStore ''mainFontSize'' = Inr ''42abc''"
  "getOption exampleStore ''treeFontSize'' = Inr ''0x10''"
  "getOption exampleStore ''spellCheckEnabled'' = Inr ''true''"
  "getOption exampleStore ''compressImages'' = Inr ''false''"
  "getOption exampleStore ''disableTray'' = Inr ''1''"
  "getOption exampleStore ''checkForUpdates'' = Inr ''True''"
  by (simp_all add: getOption_def getOptionOrNull_def becca_getOption_def exampleStore_def
      mkOption_def)

subsection \<open>Booleans\<close>

text \<open>
  C5. For an existing option, \<open>getOptionBool\<close> returns true exactly when the stored
  string is \<open>true\<close>, false exactly when it is \<open>false\<close>, and fails with a \<open>ParseError\<close>
  carrying the raw value and the name for every other stored string.
\<close>

theorem getOptionBool_two_literals:
  "getOption s n = Inr val \<Longrightarrow>
     (getOptionBool s n = Inr True \<longleftrightarrow> val = ''true'') \<and>
     (getOptionBool s n = Inr False \<longleftrightarrow> val = ''false'') \<and>
     (val \<noteq> ''true'' \<and> val \<noteq> ''false'' \<longrightarrow>
        getOptionBool s n = Inl (ParseError ''boolean'' val n))"
  by (auto simp: getOptionBool_def)

text \<open>The stored strings \<open>true\<close>, \<open>false\<close>, \<open>1\<close> and \<open>True\<close>.\<close>

theorem getOptionBool_two_literals_witness:
  "getOptionBool exampleStore ''spellCheckEnabled'' = Inr True \<and>
   getOptionBool exampleStore ''compressImages'' = Inr False \<and>
   getOptionBool exampleStore ''disableTray'' = Inl (ParseError ''boolean'' ''1'' ''disableTray'') \<and>
   getOptionBool exampleStore ''checkForUpdates'' =
     Inl (ParseError ''boolean'' ''True'' ''checkForUpdates'')"
  using getOptionBool_two_literals [OF exampleStore_getOption(5)]
    getOptionBool_two_literals [OF exampleStore_getOption(6)]
    getOptionBool_two_literals [OF exampleStore_getOption(7)]
    getOptionBool_two_literals [OF exampleStore_getOption(8)]
  by simp

subsection \<open>Creating and setting\<close>

lemma find_replace_first:
  "opt_name ent = n \<Longrightarrow> find (\<lambda>opt. opt_name opt = n) xs = Some x \<Longrightarrow>
     find (\<lambda>opt. opt_name opt = n) (replace_first n ent xs) = Some ent"
  by (induction xs) (auto split: if_splits)

lemma names_replace_first:
  "opt_name ent = n \<Longrightarrow> map opt_name (replace_first n ent xs) = map opt_name xs"
  by (induction xs) auto

lemma find_upsert_row:
  "find (\<lambda>row. opt_name row = opt_name ent) (upsert_row ent rows) = Some ent"
proof (cases "find (\<lambda>row. opt_name row = opt_name ent) rows")
  case None
  then show ?thesis by (simp add: upsert_row_def find_append_last)
next
  case (Some x)
  then show ?thesis by (simp add: upsert_row_def find_replace_first)
qed

lemma namedCount_append: "namedCount n (xs @ ys) = namedCount n xs + namedCount n ys"
  by (simp add: namedCount_def)

lemma createOption_eq:
  "createOption n v synced s =
     (if sql_writable s
      then Inr (s\<lparr>becca_options := becca_options s @ [mkOption n v synced],
                  sql_options := sql_options s @ [mkOption n v synced]\<rparr>)
      else Inl PersistenceFailure)"
  by (simp add: createOption_def save_new_def mkOption_def)

text \<open>
  C7. For every name, value and flag, \<open>createOption\<close> inserts a new option whether or
  not the store holds one of that name: on a table that accepts the write, the entity
  and the row are added behind what is there, so the number of records of that name
  grows by one; the only failure is a persistence failure, and it does not depend on
  the records present.
\<close>

theorem createOption_unconditional:
  "createOption n v synced s =
     (if sql_writable s
      then Inr (s\<lparr>becca_options := becca_options s @ [mkOption n v synced],
                  sql_options := sql_options s @ [mkOption n v synced]\<rparr>)
      else Inl PersistenceFailure) \<and>
   (sql_writable s \<longrightarrow>
      (\<exists>s'. createOption n v synced s = Inr s' \<and>
         namedCount n (becca_options s') = Suc (namedCount n (becca_options s)) \<and>
         namedCount n (sql_options s') = Suc (namedCount n (sql_options s)))) \<and>
   (\<forall>e. createOption n v synced s = Inl e \<longrightarrow> e = PersistenceFailure \<and> \<not> sql_writable s)"
  by (simp add: createOption_eq namedCount_append) (simp add: namedCount_def mkOption_def)

text \<open>Creating \<open>theme\<close> on \<open>exampleStore\<close>, which holds a \<open>theme\<close> already.\<close>

theorem createOption_unconditional_witness:
  "namedCount ''theme'' (becca_options exampleStore) = 1 \<and>
   (\<exists>s'. createOption ''theme'' ''dark'' True exampleStore = Inr s' \<and>
      namedCount ''theme'' (becca_options s') = 2)"
proof -
  have w: "sql_writable exampleStore" by (simp add: exampleStore_def)
  have c: "namedCount ''theme'' (becca_options exampleStore) = 1"
    by (simp add: exampleStore_def namedCount_def mkOption_def)
  from createOption_unconditional [of "''theme''" "''dark''" True exampleStore] w c
  show ?thesis by auto
qed

text \<open>
  C3. On a name the registry holds, \<open>setOption\<close> updates the value of that option (the
  registry and the table then answer with the updated record, and no record is added or
  renamed); on a name the registry does not hold it is \<open>createOption\<close> with \<open>isSynced\<close>
  false. It succeeds whenever the table accepts the write, so it fails with a
  persistence failure only, never because the option is absent.
\<close>

theorem setOption_update_or_create:
  "(\<forall>opt. becca_getOption s n = Some opt \<and> sql_writable s \<longrightarrow>
      (\<exists>s'. setOption n v s = Inr s' \<and>
         becca_getOption s' n = Some (opt\<lparr>opt_value := v\<rparr>) \<and>
         sql_getRow s' n = Some (opt\<lparr>opt_value := v\<rparr>) \<and>
         map opt_name (becca_options s') = map opt_name (becca_options s))) \<and>
   (becca_getOption s n = None \<longrightarrow>
      setOption n v s = createOption n v False s \<and>
      (sql_writable s \<longrightarrow>
         (\<exists>s'. setOption n v s = Inr s' \<and>
            becca_options s' = becca_options s @ [mkOption n v False] \<and>
            becca_getOption s' n = Some (mkOption n v False)))) \<and>
   (sql_writable s \<longrightarrow> (\<exists>s'. setOption n v s = Inr s')) \<and>
   (\<forall>e. setOption n v s = Inl e \<longrightarrow> e = PersistenceFailure \<and> \<not> sql_writable s)"
proof (intro conjI allI impI)
  fix opt
  assume a: "becca_getOption s n = Some opt \<and> sql_writable s"
  then have f: "find (\<lambda>opt. opt_name opt = n) (becca_options s) = Some opt"
    by (simp add: becca_getOption_def)
  have nm: "opt_name opt = n" using find_Some_named [OF f] by blast
  let ?ent = "opt\<lparr>opt_value := v\<rparr>"
  have nm': "opt_name ?ent = n" using nm by simp
  let ?s' = "s\<lparr>becca_options := replace_first n ?ent (becca_options s),
               sql_options := upsert_row ?ent (sql_options s)\<rparr>"
  have 1: "setOption n v s = Inr ?s'"
    using a nm by (simp add: setOption_def save_existing_def)
  have 2: "becca_getOption ?s' n = Some ?ent"
    using find_replace_first [OF nm' f] by (simp add: becca_getOption_def)
  have 3: "sql_getRow ?s' n = Some ?ent"
    using find_upsert_row [of ?ent "sql_options s"] nm by (simp add: sql_getRow_def)
  have 4: "map opt_name (becca_options ?s') = map opt_name (becca_options s)"
    using names_replace_first [OF nm'] by simp
  show "\<exists>s'. setOption n v s = Inr s' \<and>
         becca_getOption s' n = Some ?ent \<and> sql_getRow s' n = Some ?ent \<and>
         map opt_name (becca_options s') = map opt_name (becca_options s)"
    by (intro exI [of _ ?s'] conjI 1 2 3 4)
next
  assume "becca_getOption s n = None"
  then show "setOption n v s = createOption n v False s"
    by (simp add: setOption_def)
next
  assume a: "becca_getOption s n = None" and w: "sql_writable s"
  then show "\<exists>s'. setOption n v s = Inr s' \<and>
            becca_options s' = becca_options s @ [mkOption n v False] \<and>
            becca_getOption s' n = Some (mkOption n v False)"
    by (simp add: setOption_def createOption_eq becca_getOption_def find_append_last mkOption_def)
next
  assume "sql_writable s"
  then show "\<exists>s'. setOption n v s = Inr s'"
    by (simp add: setOption_def createOption_eq save_existing_def split: option.splits)
next
  fix e
  assume "setOption n v s = Inl e"
  then show "e = PersistenceFailure" "\<not> sql_writable s"
    by (auto simp: setOption_def createOption_eq save_existing_def split: option.splits if_splits)
qed

text \<open>
  On \<open>exampleStore\<close>: setting the existing \<open>theme\<close> keeps its \<open>isSynced\<close> and the names of
  the registry; setting the absent \<open>locale\<close> creates it with \<open>isSynced\<close> false.
\<close>

theorem setOption_update_or_create_witness:
  "(\<exists>s'. setOption ''theme'' ''dark'' exampleStore = Inr s' \<and>
      becca_getOption s' ''theme'' = Some (mkOption ''theme'' ''dark'' False) \<and>
      map opt_name (becca_options s') = map opt_name (becca_options exampleStore)) \<and>
   (\<exists>s'. setOption ''locale'' ''de'' exampleStore = Inr s' \<and>
      becca_getOption s' ''locale'' = Some (mkOption ''locale'' ''de'' False))"
proof -
  have w: "sql_writable exampleStore" by (simp add: exampleStore_def)
  have p: "becca_getOption exampleStore ''theme'' = Some (mkOption ''theme'' ''next'' False)"
    by (simp add: exampleStore_def becca_getOption_def mkOption_def)
  have a: "becca_getOption exampleStore ''locale'' = None"
    by (simp add: exampleStore_def becca_getOption_def mkOption_def)
  have u: "(mkOption ''theme'' ''next'' False)\<lparr>opt_value := ''dark''\<rparr> = mkOption ''theme'' ''dark'' False"
    by (simp add: mkOption_def)
  from setOption_update_or_create [of exampleStore "''theme''" "''dark''"] p w u
  have 1: "\<exists>s'. setOption ''theme'' ''dark'' exampleStore = Inr s' \<and>
      becca_getOption s' ''theme'' = Some (mkOption ''theme'' ''dark'' False) \<and>
      map opt_name (becca_options s') = map opt_name (becca_options exampleStore)"
    by force
  from setOption_update_or_create [of exampleStore "''locale''" "''de''"] a w
  have 2: "\<exists>s'. setOption ''locale'' ''de'' exampleStore = Inr s' \<and>
      becca_getOption s' ''locale'' = Some (mkOption ''locale'' ''de'' False)"
    by blast
  from 1 2 show ?thesis by blast
qed



subsection \<open>Integers\<close>




lemma parseInt_base10:
  "\<not> hasHexPrefix (stripSign (trimStart val)) \<Longrightarrow> parseInt val = spec_parseBase10 val"
  by (simp add: parseInt_def spec_parseBase10_def Let_def)

lemma getOptionInt_cases:
  "getOption s n = Inr val \<Longrightarrow>
     getOptionInt s n d =
       (if parseInt val = NaN
        then (case d of None \<Rightarrow> Inl (ParseError ''integer'' val n) | Some x \<Rightarrow> Inr x)
        else Inr (parseInt val))"
  by (simp add: getOptionInt_def isNaN_def Let_def)



lemma parseInt_examples:
  "parseInt ''42'' = Finite 42"
  "parseInt ''0x10'' = Finite 16"
  "parseInt ''abc'' = NaN"
  by (simp_all add: parseInt_def trimStart_def isNegative_def stripSign_def hasHexPrefix_def
       isStrWhiteSpaceChar_def isRadixDigit_def digitValue_def toNumber_def roundToDouble_def)

text \<open>
  C4, as the claim states it ("parses the stored string as a base-10 integer"), fails
  on a stored \<open>0x10\<close>: \<open>getOptionInt\<close> returns 16, where the base-10 reading of the
  string stops after the digit \<open>0\<close>.
\<close>

theorem getOptionInt_hex_counterexample:
  "getOptionInt exampleStore ''treeFontSize'' None = Inr (Finite 16) \<and>
   spec_getOptionInt exampleStore ''treeFontSize'' None = Inr (Finite 0) \<and>
   getOptionInt exampleStore ''treeFontSize'' None \<noteq>
     spec_getOptionInt exampleStore ''treeFontSize'' None"
  by (simp add: getOptionInt_cases [OF exampleStore_getOption(4)] spec_getOptionInt_def
       exampleStore_getOption(4) spec_parseBase10_def parseInt_examples
       trimStart_def isNegative_def stripSign_def
       isStrWhiteSpaceChar_def isRadixDigit_def digitValue_def toNumber_def roundToDouble_def)

text \<open>
  C4, amended. For an existing option, \<open>getOptionInt\<close> parses the stored string as
  \<open>parseInt\<close> does when no radix is given: after leading white space and a sign, in base
  16 when \<open>0x\<close> or \<open>0X\<close> follows, and otherwise in base 10, where it agrees with the
  base-10 reading of the spec. If the parse yields a Number it is returned; if it fails
  (\<open>NaN\<close>), the default is returned when one is supplied, and otherwise the call fails with
  a \<open>ParseError\<close> that carries the raw value and the name of the option.
\<close>

theorem getOptionInt_parse:
  "getOption s n = Inr val \<Longrightarrow>
     (\<not> hasHexPrefix (stripSign (trimStart val)) \<longrightarrow>
        getOptionInt s n defaultValue = spec_getOptionInt s n defaultValue) \<and>
     (hasHexPrefix (stripSign (trimStart val)) \<longrightarrow>
        parseInt val =
          (let Z = takeWhile (isRadixDigit 16) (drop 2 (stripSign (trimStart val)))
           in if Z = [] then NaN else toNumber (isNegative (trimStart val)) (radixValue 16 0 Z))) \<and>
     (parseInt val \<noteq> NaN \<longrightarrow> getOptionInt s n defaultValue = Inr (parseInt val)) \<and>
     (parseInt val = NaN \<longrightarrow>
        getOptionInt s n None = Inl (ParseError ''integer'' val n) \<and>
        (\<forall>d. getOptionInt s n (Some d) = Inr d))"
proof (intro conjI impI allI)
  assume g: "getOption s n = Inr val"
  {
    assume "\<not> hasHexPrefix (stripSign (trimStart val))"
    then show "getOptionInt s n defaultValue = spec_getOptionInt s n defaultValue"
      by (simp add: getOptionInt_cases [OF g] spec_getOptionInt_def g parseInt_base10)
  next
    assume "hasHexPrefix (stripSign (trimStart val))"
    then show "parseInt val =
          (let Z = takeWhile (isRadixDigit 16) (drop 2 (stripSign (trimStart val)))
           in if Z = [] then NaN else toNumber (isNegative (trimStart val)) (radixValue 16 0 Z))"
      by (simp add: parseInt_def Let_def)
  next
    assume "parseInt val \<noteq> NaN"
    then show "getOptionInt s n defaultValue = Inr (parseInt val)"
      by (simp add: getOptionInt_cases [OF g])
  next
    assume nan: "parseInt val = NaN"
    then show "getOptionInt s n None = Inl (ParseError ''integer'' val n)"
      by (simp add: getOptionInt_cases [OF g])
    fix d
    from nan show "getOptionInt s n (Some d) = Inr d"
      by (simp add: getOptionInt_cases [OF g])
  }
qed

text \<open>
  The stored strings \<open>42\<close> (returns 42), \<open>abc\<close> (a \<open>ParseError\<close> without a default, 7
  with the default 7) and \<open>0x10\<close> (returns 16).
\<close>

theorem getOptionInt_parse_witness:
  "getOptionInt exampleStore ''maxContentWidth'' None = Inr (Finite 42) \<and>
   getOptionInt exampleStore ''minTocHeadings'' None =
     Inl (ParseError ''integer'' ''abc'' ''minTocHeadings'') \<and>
   getOptionInt exampleStore ''minTocHeadings'' (Some (Finite 7)) = Inr (Finite 7) \<and>
   getOptionInt exampleStore ''treeFontSize'' None = Inr (Finite 16)"
proof -
  from getOptionInt_parse [OF exampleStore_getOption(1), of None] parseInt_examples(1)
  have 1: "getOptionInt exampleStore ''maxContentWidth'' None = Inr (Finite 42)" by simp
  from getOptionInt_parse [OF exampleStore_getOption(2), of None] parseInt_examples(3)
  have 2: "getOptionInt exampleStore ''minTocHeadings'' None =
     Inl (ParseError ''integer'' ''abc'' ''minTocHeadings'')"
    and 3: "getOptionInt exampleStore ''minTocHeadings'' (Some (Finite 7)) = Inr (Finite 7)"
    by blast+
  from getOptionInt_parse [OF exampleStore_getOption(4), of None] parseInt_examples(2)
  have 4: "getOptionInt exampleStore ''treeFontSize'' None = Inr (Finite 16)" by simp
  from 1 2 3 4 show ?thesis by simp
qed



section \<open>Properties of the default initializer\<close>

subsection \<open>The loop and the option map\<close>

lemma createMissingOptions_eq:
  "createMissingOptions m ds s =
     (if missingDefaults m ds = [] \<or> sql_writable s
      then Inr (s\<lparr>becca_options := becca_options s @ map (defaultEntity m) (missingDefaults m ds),
                  sql_options := sql_options s @ map (defaultEntity m) (missingDefaults m ds),
                  log_lines := log_lines s @ map (defaultLogLine m) (missingDefaults m ds)\<rparr>)
      else Inl PersistenceFailure)"
proof (induction ds arbitrary: s)
  case Nil
  show ?case by (simp add: missingDefaults_def)
next
  case (Cons d ds)
  show ?case
  proof (cases "js_in (def_name d) m")
    case True
    then show ?thesis using Cons.IH [of s] by (simp add: missingDefaults_def)
  next
    case False
    show ?thesis
    proof (cases "sql_writable s")
      case w: True
      then show ?thesis using False
        by (simp add: Cons.IH missingDefaults_def createOption_eq log_info_def Let_def
            defaultEntity_def defaultLogLine_def)
    next
      case nw: False
      then show ?thesis using False
        by (simp add: missingDefaults_def createOption_eq Let_def)
    qed
  qed
qed

lemma fillOptionMap_last:
  "fillOptionMap m opts n =
     (if n = ''__proto__'' \<or> filter (\<lambda>opt. opt_name opt = n) opts = [] then m n
      else Some (opt_value (last (filter (\<lambda>opt. opt_name opt = n) opts))))"
proof (induction opts arbitrary: m)
  case Nil
  show ?case by simp
next
  case (Cons x xs)
  show ?case
    unfolding fillOptionMap.simps Cons.IH
    by (auto simp: assignProperty_def)
qed

lemma getOptionMap_last:
  "getOptionMap s n =
     (if n = ''__proto__'' \<or> filter (\<lambda>opt. opt_name opt = n) (becca_options s) = [] then None
      else Some (opt_value (last (filter (\<lambda>opt. opt_name opt = n) (becca_options s)))))"
  by (simp add: getOptionMap_def fillOptionMap_last)

lemma proto_in_keys: "''__proto__'' \<in> set objectPrototypeKeys"
  by (simp add: objectPrototypeKeys_def)

lemma filter_name_empty:
  "filter (\<lambda>opt. opt_name opt = n) xs = [] \<longleftrightarrow> n \<notin> opt_name ` set xs"
  by (auto simp: filter_empty_conv)

lemma js_in_getOptionMap:
  "js_in n (getOptionMap s) \<longleftrightarrow>
     n \<in> opt_name ` set (becca_options s) \<or> n \<in> set objectPrototypeKeys"
  using proto_in_keys by (auto simp: js_in_def getOptionMap_last filter_name_empty)

subsection \<open>What \<open>setOption\<close> leaves behind\<close>

lemma replace_first_same:
  "find (\<lambda>opt. opt_name opt = n) xs = Some x \<Longrightarrow> replace_first n x xs = xs"
  by (induction xs) (auto split: if_splits)

lemma filter_replace_first_other:
  "opt_name ent = n \<Longrightarrow> k \<noteq> n \<Longrightarrow>
     filter (\<lambda>opt. opt_name opt = k) (replace_first n ent xs) = filter (\<lambda>opt. opt_name opt = k) xs"
  by (induction xs) auto

lemma namedCount_names:
  "map opt_name xs = map opt_name ys \<Longrightarrow> namedCount k xs = namedCount k ys"
proof -
  assume "map opt_name xs = map opt_name ys"
  then have "length (filter (\<lambda>x. x = k) (map opt_name xs)) = length (filter (\<lambda>x. x = k) (map opt_name ys))"
    by simp
  then show ?thesis
    by (simp add: namedCount_def filter_map comp_def)
qed

text \<open>The facts hold on the create path and on the update path alike.\<close>

lemma setOption_Inr:
  assumes "setOption n v s = Inr s1"
  shows "(\<exists>opt. becca_getOption s1 n = Some opt \<and> opt_value opt = v) \<and>
      sql_getRow s1 n \<noteq> None \<and> sql_writable s1 \<and> sql_writable s \<and>
      log_lines s1 = log_lines s \<and>
      (\<forall>k. k \<noteq> n \<longrightarrow> filter (\<lambda>opt. opt_name opt = k) (becca_options s1) =
           filter (\<lambda>opt. opt_name opt = k) (becca_options s)) \<and>
      (n \<in> opt_name ` set (becca_options s) \<longrightarrow>
           map opt_name (becca_options s1) = map opt_name (becca_options s)) \<and>
      opt_name ` set (becca_options s1) = insert n (opt_name ` set (becca_options s))"
proof (cases "becca_getOption s n")
  case None
  have w: "sql_writable s"
    using assms None by (auto simp: setOption_def createOption_eq split: if_splits)
  from None have nin: "n \<notin> opt_name ` set (becca_options s)"
    by (simp add: becca_getOption_def find_None_names)
  from None assms w
  have s1: "s1 = s\<lparr>becca_options := becca_options s @ [mkOption n v False],
                    sql_options := sql_options s @ [mkOption n v False]\<rparr>"
    by (simp add: setOption_def createOption_eq)
  have 1: "becca_getOption s1 n = Some (mkOption n v False)"
    using None by (simp add: s1 becca_getOption_def find_append_last mkOption_def)
  have 2: "sql_getRow s1 n \<noteq> None"
    by (simp add: s1 sql_getRow_def find_append_last mkOption_def split: option.splits)
  have 3: "opt_name (mkOption n v False) = n" "opt_value (mkOption n v False) = v"
    by (simp_all add: mkOption_def)
  show ?thesis
    using 1 2 3 nin w by (auto simp: s1)
next
  case (Some opt)
  have w: "sql_writable s"
    using assms Some by (auto simp: setOption_def save_existing_def split: if_splits)
  from Some have f: "find (\<lambda>opt. opt_name opt = n) (becca_options s) = Some opt"
    by (simp add: becca_getOption_def)
  have nm: "opt_name opt = n" and mem: "opt \<in> set (becca_options s)"
    using find_Some_named [OF f] by blast+
  let ?ent = "opt\<lparr>opt_value := v\<rparr>"
  have nm': "opt_name ?ent = n" using nm by simp
  from Some assms w nm
  have s1: "s1 = s\<lparr>becca_options := replace_first n ?ent (becca_options s),
                    sql_options := upsert_row ?ent (sql_options s)\<rparr>"
    by (simp add: setOption_def save_existing_def)
  have 1: "becca_getOption s1 n = Some ?ent"
    using find_replace_first [OF nm' f] by (simp add: s1 becca_getOption_def)
  have 2: "sql_getRow s1 n = Some ?ent"
    using find_upsert_row [of ?ent "sql_options s"] nm by (simp add: s1 sql_getRow_def)
  have 4: "map opt_name (becca_options s1) = map opt_name (becca_options s)"
    using names_replace_first [OF nm'] by (simp add: s1)
  have 5: "\<forall>k. k \<noteq> n \<longrightarrow> filter (\<lambda>opt. opt_name opt = k) (becca_options s1) =
         filter (\<lambda>opt. opt_name opt = k) (becca_options s)"
    using filter_replace_first_other [OF nm'] by (simp add: s1)
  have 6: "opt_name ` set (becca_options s1) = opt_name ` set (becca_options s)"
    using arg_cong [OF 4, of set] by simp
  have 7: "n \<in> opt_name ` set (becca_options s)"
    using nm mem by auto
  have 8: "sql_writable s1" "log_lines s1 = log_lines s"
    using w by (simp_all add: s1)
  have 9: "opt_value ?ent = v" by simp
  show ?thesis
    using 1 2 4 5 6 7 8 9 w by (simp add: insert_absorb)
qed

text \<open>Setting an option to the value it has changes nothing in the registry.\<close>

lemma setOption_again:
  assumes g: "becca_getOption s n = Some opt" and v: "opt_value opt = v"
    and r: "sql_getRow s n \<noteq> None" and w: "sql_writable s"
  shows "\<exists>s2. setOption n v s = Inr s2 \<and> becca_options s2 = becca_options s \<and>
           map opt_name (sql_options s2) = map opt_name (sql_options s) \<and>
           log_lines s2 = log_lines s \<and> becca_loaded s2 = becca_loaded s \<and>
           sql_writable s2 = sql_writable s"
proof -
  from g have f: "find (\<lambda>opt. opt_name opt = n) (becca_options s) = Some opt"
    by (simp add: becca_getOption_def)
  have nm: "opt_name opt = n" using find_Some_named [OF f] by blast
  have same: "opt\<lparr>opt_value := v\<rparr> = opt" using v by simp
  let ?s2 = "s\<lparr>becca_options := replace_first n opt (becca_options s),
               sql_options := upsert_row opt (sql_options s)\<rparr>"
  have 1: "setOption n v s = Inr ?s2"
    using g w nm by (simp add: setOption_def save_existing_def same)
  have 2: "replace_first n opt (becca_options s) = becca_options s"
    by (rule replace_first_same [OF f])
  from r have "find (\<lambda>row. opt_name row = opt_name opt) (sql_options s) \<noteq> None"
    by (simp add: sql_getRow_def nm)
  then have u: "upsert_row opt (sql_options s) = replace_first n opt (sql_options s)"
    unfolding upsert_row_def nm by (simp only: if_False)
  have 3: "map opt_name (upsert_row opt (sql_options s)) = map opt_name (sql_options s)"
    by (simp add: u names_replace_first [OF nm])
  show ?thesis
    by (rule exI [of _ ?s2]) (simp add: 1 2 3)
qed

lemma setOption_filter_other:
  "setOption n v s = Inr s1 \<Longrightarrow> k \<noteq> n \<Longrightarrow>
     filter (\<lambda>opt. opt_name opt = k) (becca_options s1) =
     filter (\<lambda>opt. opt_name opt = k) (becca_options s)"
  using setOption_Inr [of n v s s1] by simp

lemma setOption_names_kept:
  "setOption n v s = Inr s1 \<Longrightarrow> n \<in> opt_name ` set (becca_options s) \<Longrightarrow>
     map opt_name (becca_options s1) = map opt_name (becca_options s)"
  using setOption_Inr [of n v s s1] by simp

lemma setOption_names:
  "setOption n v s = Inr s1 \<Longrightarrow>
     opt_name ` set (becca_options s1) = insert n (opt_name ` set (becca_options s))"
  using setOption_Inr [of n v s s1] by simp

lemma setOption_log: "setOption n v s = Inr s1 \<Longrightarrow> log_lines s1 = log_lines s"
  using setOption_Inr [of n v s s1] by simp

lemma setOption_stored:
  "setOption n v s = Inr s1 \<Longrightarrow>
     (\<exists>opt. becca_getOption s1 n = Some opt \<and> opt_value opt = v) \<and>
     sql_getRow s1 n \<noteq> None \<and> sql_writable s1"
  using setOption_Inr [of n v s s1] by simp

subsection \<open>The structure of a run\<close>

lemma createMissingOptions_Inr:
  assumes "createMissingOptions m ds s = Inr s'"
  shows "becca_options s' = becca_options s @ map (defaultEntity m) (missingDefaults m ds) \<and>
         sql_options s' = sql_options s @ map (defaultEntity m) (missingDefaults m ds) \<and>
         log_lines s' = log_lines s @ map (defaultLogLine m) (missingDefaults m ds) \<and>
         becca_loaded s' = becca_loaded s \<and> sql_writable s' = sql_writable s"
  using assms unfolding createMissingOptions_eq by (auto split: if_splits)

lemma createMissingOptions_nothing:
  "missingDefaults m ds = [] \<Longrightarrow> createMissingOptions m ds s = Inr s"
  by (simp add: createMissingOptions_eq)

lemma initStartupOptions_Inr:
  assumes "initStartupOptions env s = Inr s1"
  shows "\<exists>s'. createMissingOptions (getOptionMap s) (allDefaultOptions env) s = Inr s' \<and>
          (if truthy (TRILIUM_START_NOTE_ID env) \<or> truthy (TRILIUM_SAFE_MODE env)
           then setOption ''openNoteContexts'' (startNoteContexts env) s' = Inr s1
           else s1 = s')"
  using assms unfolding initStartupOptions_def Let_def
  by (cases "createMissingOptions (getOptionMap s) (allDefaultOptions env) s")
     (auto split: if_splits)

lemma setOption_succeeds: "sql_writable s \<Longrightarrow> \<exists>s'. setOption n v s = Inr s'"
  by (simp add: setOption_def createOption_eq save_existing_def split: option.splits)

lemma initStartupOptions_succeeds:
  assumes w: "sql_writable s"
  shows "\<exists>s1. initStartupOptions env s = Inr s1"
proof -
  from w obtain s' where l: "createMissingOptions (getOptionMap s) (allDefaultOptions env) s = Inr s'"
    by (simp add: createMissingOptions_eq)
  from createMissingOptions_Inr [OF l] w have "sql_writable s'" by simp
  from setOption_succeeds [OF this] l show ?thesis
    by (simp add: initStartupOptions_def Let_def)
qed

lemma name_defaultEntity: "opt_name (defaultEntity m d) = def_name d"
  by (simp add: defaultEntity_def mkOption_def)

lemma openNoteContexts_not_inherited: "''openNoteContexts'' \<notin> set objectPrototypeKeys"
  by (simp add: objectPrototypeKeys_def)

lemma codeBlockTheme_not_inherited: "''codeBlockTheme'' \<notin> set objectPrototypeKeys"
  by (simp add: objectPrototypeKeys_def)

text \<open>The registry after the loop and after the whole of \<open>initStartupOptions\<close>.\<close>

lemma names_after_loop:
  assumes l: "createMissingOptions m ds s = Inr s'"
  shows "opt_name ` set (becca_options s') =
           opt_name ` set (becca_options s) \<union> def_name ` set (missingDefaults m ds)"
  using createMissingOptions_Inr [OF l] by (auto simp: name_defaultEntity image_Un image_image)

lemma filter_after_loop:
  assumes l: "createMissingOptions m ds s = Inr s'"
  shows "filter (\<lambda>opt. opt_name opt = k) (becca_options s') =
           filter (\<lambda>opt. opt_name opt = k) (becca_options s) @
           map (defaultEntity m) (filter (\<lambda>d. def_name d = k) (missingDefaults m ds))"
  using createMissingOptions_Inr [OF l]
  by (simp add: filter_map comp_def name_defaultEntity)

subsection \<open>Idempotence\<close>

lemma defaults_present_after_run:
  assumes i: "initStartupOptions env s = Inr s1"
  shows "missingDefaults (getOptionMap s1) (allDefaultOptions env) = []"
proof -
  from i obtain s' where l: "createMissingOptions (getOptionMap s) (allDefaultOptions env) s = Inr s'"
    and fin: "if truthy (TRILIUM_START_NOTE_ID env) \<or> truthy (TRILIUM_SAFE_MODE env)
           then setOption ''openNoteContexts'' (startNoteContexts env) s' = Inr s1
           else s1 = s'"
    using initStartupOptions_Inr by blast
  from fin have o: "truthy (TRILIUM_START_NOTE_ID env) \<or> truthy (TRILIUM_SAFE_MODE env) \<Longrightarrow>
          setOption ''openNoteContexts'' (startNoteContexts env) s' = Inr s1"
    and no: "\<not> (truthy (TRILIUM_START_NOTE_ID env) \<or> truthy (TRILIUM_SAFE_MODE env)) \<Longrightarrow> s1 = s'"
    by (simp_all split: if_splits)
  have sub: "opt_name ` set (becca_options s') \<subseteq> opt_name ` set (becca_options s1)"
  proof (cases "truthy (TRILIUM_START_NOTE_ID env) \<or> truthy (TRILIUM_SAFE_MODE env)")
    case True
    from setOption_names [OF o [OF True]] show ?thesis by auto
  next
    case False
    with no show ?thesis by simp
  qed
  have "js_in (def_name d) (getOptionMap s1)" if d: "d \<in> set (allDefaultOptions env)" for d
  proof (cases "js_in (def_name d) (getOptionMap s)")
    case True
    then have "def_name d \<in> opt_name ` set (becca_options s') \<or> def_name d \<in> set objectPrototypeKeys"
      unfolding js_in_getOptionMap names_after_loop [OF l] by auto
    with sub show ?thesis unfolding js_in_getOptionMap by auto
  next
    case False
    with d have "d \<in> set (missingDefaults (getOptionMap s) (allDefaultOptions env))"
      by (simp add: missingDefaults_def)
    then have "def_name d \<in> opt_name ` set (becca_options s')"
      unfolding names_after_loop [OF l] by auto
    with sub show ?thesis unfolding js_in_getOptionMap by auto
  qed
  then show ?thesis
    by (simp add: missingDefaults_def filter_empty_conv)
qed

lemma present_not_created:
  assumes i: "initStartupOptions env s = Inr s1" and k: "js_in k (getOptionMap s)"
  shows "namedCount k (becca_options s1) = namedCount k (becca_options s)"
proof -
  from i obtain s' where l: "createMissingOptions (getOptionMap s) (allDefaultOptions env) s = Inr s'"
    and fin: "if truthy (TRILIUM_START_NOTE_ID env) \<or> truthy (TRILIUM_SAFE_MODE env)
           then setOption ''openNoteContexts'' (startNoteContexts env) s' = Inr s1
           else s1 = s'"
    using initStartupOptions_Inr by blast
  from fin have o: "truthy (TRILIUM_START_NOTE_ID env) \<or> truthy (TRILIUM_SAFE_MODE env) \<Longrightarrow>
          setOption ''openNoteContexts'' (startNoteContexts env) s' = Inr s1"
    and no: "\<not> (truthy (TRILIUM_START_NOTE_ID env) \<or> truthy (TRILIUM_SAFE_MODE env)) \<Longrightarrow> s1 = s'"
    by (simp_all split: if_splits)
  from k have "filter (\<lambda>d. def_name d = k) (missingDefaults (getOptionMap s) (allDefaultOptions env)) = []"
    by (auto simp: missingDefaults_def filter_empty_conv)
  then have f: "filter (\<lambda>opt. opt_name opt = k) (becca_options s') =
           filter (\<lambda>opt. opt_name opt = k) (becca_options s)"
    by (simp add: filter_after_loop [OF l])
  then have c: "namedCount k (becca_options s') = namedCount k (becca_options s)"
    by (simp add: namedCount_def)
  show ?thesis
  proof (cases "truthy (TRILIUM_START_NOTE_ID env) \<or> truthy (TRILIUM_SAFE_MODE env)")
    case False
    with no c show ?thesis by simp
  next
    case True
    note r = o [OF True]
    show ?thesis
    proof (cases "k = ''openNoteContexts''")
      case False
      from setOption_filter_other [OF r False] c show ?thesis by (simp add: namedCount_def)
    next
      case eq: True
      from k have "k \<in> opt_name ` set (becca_options s) \<or> k \<in> set objectPrototypeKeys"
        unfolding js_in_getOptionMap .
      with eq openNoteContexts_not_inherited
      have "''openNoteContexts'' \<in> opt_name ` set (becca_options s)"
        by simp
      then have "''openNoteContexts'' \<in> opt_name ` set (becca_options s')"
        unfolding names_after_loop [OF l] by simp
      from namedCount_names [OF setOption_names_kept [OF r this]] c show ?thesis by simp
    qed
  qed
qed

text \<open>
  C1. \<open>initStartupOptions\<close> is idempotent. From any store, a first run returns if the
  table accepts writes; and after a first run that returned, a second run returns too
  and leaves the option map, the entities of the registry, the names of the rows and the
  log as the first run left them: nothing is created again and no value changes. In the
  first run itself, a name that is \<open>in\<close> the option map read at the start gets no
  further record, whatever its value is.
\<close>

theorem initStartupOptions_idempotent:
  "(sql_writable s \<longrightarrow> (\<exists>s1. initStartupOptions env s = Inr s1)) \<and>
   (initStartupOptions env s = Inr s1 \<longrightarrow>
     (\<exists>s2. initStartupOptions env s1 = Inr s2 \<and>
        getOptionMap s2 = getOptionMap s1 \<and>
        becca_options s2 = becca_options s1 \<and>
        map opt_name (sql_options s2) = map opt_name (sql_options s1) \<and>
        log_lines s2 = log_lines s1) \<and>
     (\<forall>k. js_in k (getOptionMap s) \<longrightarrow>
        namedCount k (becca_options s1) = namedCount k (becca_options s)))"
proof (intro conjI allI impI)
  assume "sql_writable s"
  then show "\<exists>s1. initStartupOptions env s = Inr s1"
    by (rule initStartupOptions_succeeds)
next
  assume i: "initStartupOptions env s = Inr s1"
  from i obtain s' where l: "createMissingOptions (getOptionMap s) (allDefaultOptions env) s = Inr s'"
    and fin: "if truthy (TRILIUM_START_NOTE_ID env) \<or> truthy (TRILIUM_SAFE_MODE env)
           then setOption ''openNoteContexts'' (startNoteContexts env) s' = Inr s1
           else s1 = s'"
    using initStartupOptions_Inr by blast
  have loop2: "createMissingOptions (getOptionMap s1) (allDefaultOptions env) s1 = Inr s1"
    by (rule createMissingOptions_nothing [OF defaults_present_after_run [OF i]])
  show "\<exists>s2. initStartupOptions env s1 = Inr s2 \<and>
        getOptionMap s2 = getOptionMap s1 \<and>
        becca_options s2 = becca_options s1 \<and>
        map opt_name (sql_options s2) = map opt_name (sql_options s1) \<and>
        log_lines s2 = log_lines s1"
  proof (cases "truthy (TRILIUM_START_NOTE_ID env) \<or> truthy (TRILIUM_SAFE_MODE env)")
    case False
    then have "initStartupOptions env s1 = Inr s1"
      by (simp add: initStartupOptions_def Let_def loop2)
    then show ?thesis by simp
  next
    case True
    with fin have "setOption ''openNoteContexts'' (startNoteContexts env) s' = Inr s1"
      by simp
    from setOption_stored [OF this]
    obtain opt where g: "becca_getOption s1 ''openNoteContexts'' = Some opt"
      and v: "opt_value opt = startNoteContexts env"
      and r: "sql_getRow s1 ''openNoteContexts'' \<noteq> None" and w: "sql_writable s1"
      by (elim conjE exE)
    from setOption_again [OF g v r w]
    obtain s2 where 1: "setOption ''openNoteContexts'' (startNoteContexts env) s1 = Inr s2"
      and 2: "becca_options s2 = becca_options s1"
      and 3: "map opt_name (sql_options s2) = map opt_name (sql_options s1)"
      and 4: "log_lines s2 = log_lines s1"
      by blast
    from True 1 have "initStartupOptions env s1 = Inr s2"
      by (simp add: initStartupOptions_def Let_def loop2)
    moreover from 2 have "getOptionMap s2 = getOptionMap s1"
      by (simp add: getOptionMap_def)
    ultimately show ?thesis using 2 3 4 by simp
  qed
next
  fix k
  assume "initStartupOptions env s = Inr s1" and "js_in k (getOptionMap s)"
  then show "namedCount k (becca_options s1) = namedCount k (becca_options s)"
    by (rule present_not_created)
qed

text \<open>
  Two runs from \<open>exampleStore\<close> with safe mode requested; \<open>maxContentWidth\<close>, stored
  before the first run, is still stored once after it.
\<close>

theorem initStartupOptions_idempotent_witness:
  "\<exists>s1. initStartupOptions exampleEnv exampleStore = Inr s1 \<and>
     (\<exists>s2. initStartupOptions exampleEnv s1 = Inr s2 \<and>
        getOptionMap s2 = getOptionMap s1 \<and> becca_options s2 = becca_options s1) \<and>
     namedCount ''maxContentWidth'' (becca_options s1) = 1"
proof -
  have w: "sql_writable exampleStore" by (simp add: exampleStore_def)
  from initStartupOptions_idempotent [of exampleStore exampleEnv] w
  obtain s1 where i: "initStartupOptions exampleEnv exampleStore = Inr s1" by blast
  have f: "filter (\<lambda>opt. opt_name opt = ''maxContentWidth'') (becca_options exampleStore) =
             [mkOption ''maxContentWidth'' ''42'' False]"
    by (simp add: exampleStore_def mkOption_def)
  have p: "js_in ''maxContentWidth'' (getOptionMap exampleStore)"
    by (simp add: js_in_def getOptionMap_last f)
  have c: "namedCount ''maxContentWidth'' (becca_options exampleStore) = 1"
    by (simp add: namedCount_def f)
  from initStartupOptions_idempotent [of exampleStore exampleEnv s1] i
  have 1: "\<exists>s2. initStartupOptions exampleEnv s1 = Inr s2 \<and>
        getOptionMap s2 = getOptionMap s1 \<and> becca_options s2 = becca_options s1"
    and 2: "js_in ''maxContentWidth'' (getOptionMap exampleStore) \<longrightarrow>
        namedCount ''maxContentWidth'' (becca_options s1) =
        namedCount ''maxContentWidth'' (becca_options exampleStore)"
    by blast+
  from 2 p c have 3: "namedCount ''maxContentWidth'' (becca_options s1) = 1" by simp
  from i 1 3 show ?thesis by blast
qed

subsection \<open>The derived default\<close>

lemma codeBlockTheme_static:
  "filter (\<lambda>d. def_name d = ''codeBlockTheme'') (defaultOptions p) = [codeBlockThemeOption]"
  by (simp add: defaultOptions_def lit_def codeBlockThemeOption_def)

lemma keyboard_names:
  "d \<in> set (getKeyboardDefaultOptions kas) \<Longrightarrow> take 17 (def_name d) = ''keyboardShortcuts''"
  by (auto simp: getKeyboardDefaultOptions_def keyboardOptionName_def)

lemma codeBlockTheme_keyboard:
  "filter (\<lambda>d. def_name d = ''codeBlockTheme'') (getKeyboardDefaultOptions kas) = []"
proof -
  have "def_name d \<noteq> ''codeBlockTheme''" if "d \<in> set (getKeyboardDefaultOptions kas)" for d
  proof
    assume "def_name d = ''codeBlockTheme''"
    with keyboard_names [OF that] show False by simp
  qed
  then show ?thesis by (simp add: filter_empty_conv)
qed

lemma codeBlockTheme_once:
  "filter (\<lambda>d. def_name d = ''codeBlockTheme'') (allDefaultOptions env) = [codeBlockThemeOption]"
  by (simp add: allDefaultOptions_def codeBlockTheme_static codeBlockTheme_keyboard)

lemma openNoteContexts_static:
  "filter (\<lambda>d. def_name d = ''openNoteContexts'') (defaultOptions p) = []"
  by (simp add: defaultOptions_def lit_def codeBlockThemeOption_def)

lemma openNoteContexts_no_default:
  "d \<in> set (allDefaultOptions env) \<Longrightarrow> def_name d \<noteq> ''openNoteContexts''"
proof
  assume d: "d \<in> set (allDefaultOptions env)" and n: "def_name d = ''openNoteContexts''"
  from d consider "d \<in> set (defaultOptions (platform env))"
    | "d \<in> set (getKeyboardDefaultOptions (defaultKeyboardActions env))"
    by (auto simp: allDefaultOptions_def)
  then show False
  proof cases
    case 1
    with n have "d \<in> set (filter (\<lambda>d. def_name d = ''openNoteContexts'') (defaultOptions (platform env)))"
      by simp
    then show False unfolding openNoteContexts_static by simp
  next
    case 2
    from keyboard_names [OF 2] n show False by simp
  qed
qed

text \<open>The value that \<open>codeBlockTheme\<close> gets when the run has to create it.\<close>

lemma codeBlockTheme_resolved:
  assumes i: "initStartupOptions env s = Inr s1"
    and absent: "getOptionMap s ''codeBlockTheme'' = None"
  shows "getOptionMap s1 ''codeBlockTheme'' = Some (codeBlockThemeDefault (getOptionMap s))"
proof -
  let ?m = "getOptionMap s"
  from i obtain s' where l: "createMissingOptions ?m (allDefaultOptions env) s = Inr s'"
    and fin: "if truthy (TRILIUM_START_NOTE_ID env) \<or> truthy (TRILIUM_SAFE_MODE env)
           then setOption ''openNoteContexts'' (startNoteContexts env) s' = Inr s1
           else s1 = s'"
    using initStartupOptions_Inr by blast
  from absent codeBlockTheme_not_inherited have nin: "\<not> js_in ''codeBlockTheme'' ?m"
    by (simp add: js_in_def)
  have "filter (\<lambda>d. def_name d = ''codeBlockTheme'') (missingDefaults ?m (allDefaultOptions env)) =
          filter (\<lambda>d. def_name d = ''codeBlockTheme'') (allDefaultOptions env)"
    unfolding missingDefaults_def filter_filter
    by (rule filter_cong) (use nin in auto)
  then have "filter (\<lambda>opt. opt_name opt = ''codeBlockTheme'') (becca_options s') =
          filter (\<lambda>opt. opt_name opt = ''codeBlockTheme'') (becca_options s) @
          [defaultEntity ?m codeBlockThemeOption]"
    by (simp add: filter_after_loop [OF l] codeBlockTheme_once)
  moreover have "filter (\<lambda>opt. opt_name opt = ''codeBlockTheme'') (becca_options s1) =
          filter (\<lambda>opt. opt_name opt = ''codeBlockTheme'') (becca_options s')"
  proof (cases "truthy (TRILIUM_START_NOTE_ID env) \<or> truthy (TRILIUM_SAFE_MODE env)")
    case True
    with fin have "setOption ''openNoteContexts'' (startNoteContexts env) s' = Inr s1" by simp
    from setOption_filter_other [OF this] show ?thesis by simp
  next
    case False
    with fin show ?thesis by simp
  qed
  ultimately have "filter (\<lambda>opt. opt_name opt = ''codeBlockTheme'') (becca_options s1) =
          filter (\<lambda>opt. opt_name opt = ''codeBlockTheme'') (becca_options s) @
          [defaultEntity ?m codeBlockThemeOption]"
    by simp
  then show ?thesis
    by (simp add: getOptionMap_last [of s1] defaultEntity_def codeBlockThemeOption_def
        mkOption_def resolveValue_def)
qed

text \<open>
  C6. The default of \<open>codeBlockTheme\<close> is resolved from the \<open>theme\<close> of the option map
  read when defaulting runs: of two stores without \<open>codeBlockTheme\<close>, the run from the
  one seeded with the theme \<open>light\<close> ends with \<open>default:stackoverflow-light\<close> and the
  run from the one seeded with the theme \<open>dark\<close> ends with
  \<open>default:stackoverflow-dark\<close>, a different value.
\<close>

theorem codeBlockTheme_follows_theme:
  "initStartupOptions env slight = Inr slight' \<Longrightarrow>
   initStartupOptions env sdark = Inr sdark' \<Longrightarrow>
   getOptionMap slight ''codeBlockTheme'' = None \<Longrightarrow>
   getOptionMap sdark ''codeBlockTheme'' = None \<Longrightarrow>
   getOptionMap slight ''theme'' = Some ''light'' \<Longrightarrow>
   getOptionMap sdark ''theme'' = Some ''dark'' \<Longrightarrow>
     getOptionMap slight' ''codeBlockTheme'' = Some ''default:stackoverflow-light'' \<and>
     getOptionMap sdark' ''codeBlockTheme'' = Some ''default:stackoverflow-dark'' \<and>
     getOptionMap slight' ''codeBlockTheme'' \<noteq> getOptionMap sdark' ''codeBlockTheme''"
  by (simp add: codeBlockTheme_resolved codeBlockThemeDefault_def)

text \<open>The empty store seeded with \<open>theme\<close> by \<open>createOption\<close>, then initialised.\<close>

theorem codeBlockTheme_follows_theme_witness:
  "createOption ''theme'' ''light'' False emptyStore = Inr lightStore \<and>
   createOption ''theme'' ''dark'' False emptyStore = Inr darkStore \<and>
   (\<exists>slight' sdark'.
      initStartupOptions exampleEnv lightStore = Inr slight' \<and>
      initStartupOptions exampleEnv darkStore = Inr sdark' \<and>
      getOptionMap slight' ''codeBlockTheme'' = Some ''default:stackoverflow-light'' \<and>
      getOptionMap sdark' ''codeBlockTheme'' = Some ''default:stackoverflow-dark'')"
proof -
  have seed: "createOption ''theme'' ''light'' False emptyStore = Inr lightStore"
    "createOption ''theme'' ''dark'' False emptyStore = Inr darkStore"
    by (simp_all add: createOption_eq emptyStore_def lightStore_def darkStore_def)
  have "sql_writable lightStore" by (simp add: lightStore_def)
  from initStartupOptions_succeeds [OF this]
  obtain slight' where 1: "initStartupOptions exampleEnv lightStore = Inr slight'" by blast
  have "sql_writable darkStore" by (simp add: darkStore_def)
  from initStartupOptions_succeeds [OF this]
  obtain sdark' where 2: "initStartupOptions exampleEnv darkStore = Inr sdark'" by blast
  have 3: "getOptionMap lightStore ''codeBlockTheme'' = None"
    "getOptionMap darkStore ''codeBlockTheme'' = None"
    by (simp_all add: getOptionMap_def lightStore_def darkStore_def mkOption_def assignProperty_def)
  have 4: "getOptionMap lightStore ''theme'' = Some ''light''"
    "getOptionMap darkStore ''theme'' = Some ''dark''"
    by (simp_all add: getOptionMap_def lightStore_def darkStore_def mkOption_def assignProperty_def)
  from codeBlockTheme_follows_theme [OF 1 2 3 4] 1 2 seed show ?thesis by blast
qed

lemma log_after_run:
  assumes i: "initStartupOptions env s = Inr s1"
  shows "log_lines s1 =
           log_lines s @ map (defaultLogLine (getOptionMap s))
                           (missingDefaults (getOptionMap s) (allDefaultOptions env))"
proof -
  from i obtain s' where l: "createMissingOptions (getOptionMap s) (allDefaultOptions env) s = Inr s'"
    and fin: "if truthy (TRILIUM_START_NOTE_ID env) \<or> truthy (TRILIUM_SAFE_MODE env)
           then setOption ''openNoteContexts'' (startNoteContexts env) s' = Inr s1
           else s1 = s'"
    using initStartupOptions_Inr by blast
  have "log_lines s1 = log_lines s'"
  proof (cases "truthy (TRILIUM_START_NOTE_ID env) \<or> truthy (TRILIUM_SAFE_MODE env)")
    case True
    with fin have "setOption ''openNoteContexts'' (startNoteContexts env) s' = Inr s1" by simp
    then show ?thesis by (rule setOption_log)
  next
    case False
    with fin show ?thesis by simp
  qed
  with createMissingOptions_Inr [OF l] show ?thesis by simp
qed

lemma created_entities_after_run:
  assumes i: "initStartupOptions env s = Inr s1"
    and d: "d \<in> set (missingDefaults (getOptionMap s) (allDefaultOptions env))"
  shows "defaultEntity (getOptionMap s) d \<in> set (becca_options s1)"
proof -
  let ?e = "defaultEntity (getOptionMap s) d"
  from i obtain s' where l: "createMissingOptions (getOptionMap s) (allDefaultOptions env) s = Inr s'"
    and fin: "if truthy (TRILIUM_START_NOTE_ID env) \<or> truthy (TRILIUM_SAFE_MODE env)
           then setOption ''openNoteContexts'' (startNoteContexts env) s' = Inr s1
           else s1 = s'"
    using initStartupOptions_Inr by blast
  from d createMissingOptions_Inr [OF l] have e: "?e \<in> set (becca_options s')"
    by simp
  show ?thesis
  proof (cases "truthy (TRILIUM_START_NOTE_ID env) \<or> truthy (TRILIUM_SAFE_MODE env)")
    case False
    with fin e show ?thesis by simp
  next
    case True
    with fin have st: "setOption ''openNoteContexts'' (startNoteContexts env) s' = Inr s1" by simp
    from d have "d \<in> set (allDefaultOptions env)" by (simp add: missingDefaults_def)
    then have ne: "opt_name ?e \<noteq> ''openNoteContexts''"
      by (simp add: name_defaultEntity openNoteContexts_no_default)
    from e have "?e \<in> set (filter (\<lambda>opt. opt_name opt = opt_name ?e) (becca_options s'))"
      by simp
    then have "?e \<in> set (filter (\<lambda>opt. opt_name opt = opt_name ?e) (becca_options s1))"
      unfolding setOption_filter_other [OF st ne] .
    then show ?thesis by simp
  qed
qed

text \<open>
  C8. The option map is read once, before the loop, and every value is resolved against
  that map. For the loop on any table and any map: the entities and log lines added are
  those of the descriptors whose name is not \<open>in\<close> the map, each resolved against the
  map, in table order. For \<open>initStartupOptions\<close>: the log lines added, and the entities
  found in the registry afterwards, are those resolved against the option map of the
  store the run started from; so with neither \<open>codeBlockTheme\<close> nor \<open>theme\<close> in that map,
  \<open>codeBlockTheme\<close> ends as \<open>default:stackoverflow-dark\<close>.
\<close>

theorem derived_defaults_use_snapshot:
  "(createMissingOptions optionsMap ds s = Inr s' \<longrightarrow>
      becca_options s' =
        becca_options s @ map (defaultEntity optionsMap) (missingDefaults optionsMap ds) \<and>
      log_lines s' =
        log_lines s @ map (defaultLogLine optionsMap) (missingDefaults optionsMap ds)) \<and>
   (initStartupOptions env s = Inr s1 \<longrightarrow>
      log_lines s1 =
        log_lines s @ map (defaultLogLine (getOptionMap s))
                        (missingDefaults (getOptionMap s) (allDefaultOptions env)) \<and>
      (\<forall>d \<in> set (missingDefaults (getOptionMap s) (allDefaultOptions env)).
          defaultEntity (getOptionMap s) d \<in> set (becca_options s1)) \<and>
      (getOptionMap s ''codeBlockTheme'' = None \<and> getOptionMap s ''theme'' = None \<longrightarrow>
          getOptionMap s1 ''codeBlockTheme'' = Some ''default:stackoverflow-dark''))"
proof (intro conjI impI ballI)
  assume "createMissingOptions optionsMap ds s = Inr s'"
  from createMissingOptions_Inr [OF this]
  show "becca_options s' =
        becca_options s @ map (defaultEntity optionsMap) (missingDefaults optionsMap ds)"
    and "log_lines s' =
        log_lines s @ map (defaultLogLine optionsMap) (missingDefaults optionsMap ds)"
    by simp_all
next
  assume "initStartupOptions env s = Inr s1"
  then show "log_lines s1 =
        log_lines s @ map (defaultLogLine (getOptionMap s))
                        (missingDefaults (getOptionMap s) (allDefaultOptions env))"
    by (rule log_after_run)
next
  fix d
  assume "initStartupOptions env s = Inr s1"
    and "d \<in> set (missingDefaults (getOptionMap s) (allDefaultOptions env))"
  then show "defaultEntity (getOptionMap s) d \<in> set (becca_options s1)"
    by (rule created_entities_after_run)
next
  assume i: "initStartupOptions env s = Inr s1"
    and a: "getOptionMap s ''codeBlockTheme'' = None \<and> getOptionMap s ''theme'' = None"
  then show "getOptionMap s1 ''codeBlockTheme'' = Some ''default:stackoverflow-dark''"
    by (simp add: codeBlockTheme_resolved codeBlockThemeDefault_def)
qed

text \<open>
  The loop on a table that creates \<open>theme = light\<close> just before \<open>codeBlockTheme\<close>: the
  derived default still resolves to the dark value. And a run from the empty store.
\<close>

theorem derived_defaults_use_snapshot_witness:
  "(\<exists>s'. createMissingOptions (getOptionMap emptyStore) themeThenCodeBlockTheme emptyStore = Inr s' \<and>
      becca_options s' =
        [mkOption ''theme'' ''light'' False,
         mkOption ''codeBlockTheme'' ''default:stackoverflow-dark'' False]) \<and>
   (\<exists>s1. initStartupOptions exampleEnv emptyStore = Inr s1 \<and>
      getOptionMap s1 ''codeBlockTheme'' = Some ''default:stackoverflow-dark'' \<and>
      mkOption ''codeBlockTheme'' ''default:stackoverflow-dark'' False \<in> set (becca_options s1))"
proof -
  have m: "getOptionMap emptyStore = Map.empty"
    by (simp add: getOptionMap_def emptyStore_def)
  have w: "sql_writable emptyStore" by (simp add: emptyStore_def)
  have bo: "becca_options emptyStore = []" by (simp add: emptyStore_def)
  have miss: "missingDefaults Map.empty themeThenCodeBlockTheme = themeThenCodeBlockTheme"
    by (simp add: missingDefaults_def themeThenCodeBlockTheme_def js_in_def lit_def
        codeBlockThemeOption_def objectPrototypeKeys_def)
  have ents: "map (defaultEntity Map.empty) themeThenCodeBlockTheme =
        [mkOption ''theme'' ''light'' False,
         mkOption ''codeBlockTheme'' ''default:stackoverflow-dark'' False]"
    by (simp add: themeThenCodeBlockTheme_def defaultEntity_def lit_def codeBlockThemeOption_def
        resolveValue_def codeBlockThemeDefault_def)
  from w obtain s' where
    l: "createMissingOptions (getOptionMap emptyStore) themeThenCodeBlockTheme emptyStore = Inr s'"
    by (simp add: createMissingOptions_eq)
  from derived_defaults_use_snapshot [of "getOptionMap emptyStore" themeThenCodeBlockTheme emptyStore s'] l
  have "becca_options s' =
        becca_options emptyStore @
        map (defaultEntity (getOptionMap emptyStore))
          (missingDefaults (getOptionMap emptyStore) themeThenCodeBlockTheme)"
    by blast
  then have 1: "becca_options s' =
        [mkOption ''theme'' ''light'' False,
         mkOption ''codeBlockTheme'' ''default:stackoverflow-dark'' False]"
    by (simp add: m miss ents bo)
  from initStartupOptions_succeeds [OF w]
  obtain s1 where i: "initStartupOptions exampleEnv emptyStore = Inr s1" by blast
  have d: "codeBlockThemeOption \<in>
        set (missingDefaults (getOptionMap emptyStore) (allDefaultOptions exampleEnv))"
  proof -
    have "codeBlockThemeOption \<in>
            set (filter (\<lambda>d. def_name d = ''codeBlockTheme'') (allDefaultOptions exampleEnv))"
      unfolding codeBlockTheme_once by simp
    then show ?thesis
      by (simp add: missingDefaults_def m js_in_def codeBlockThemeOption_def
          objectPrototypeKeys_def)
  qed
  have e: "defaultEntity (getOptionMap emptyStore) codeBlockThemeOption =
        mkOption ''codeBlockTheme'' ''default:stackoverflow-dark'' False"
    by (simp add: m defaultEntity_def codeBlockThemeOption_def resolveValue_def
        codeBlockThemeDefault_def)
  from derived_defaults_use_snapshot [of _ _ emptyStore _ exampleEnv s1] i
  have 2: "\<forall>d \<in> set (missingDefaults (getOptionMap emptyStore) (allDefaultOptions exampleEnv)).
          defaultEntity (getOptionMap emptyStore) d \<in> set (becca_options s1)"
    and 3: "getOptionMap emptyStore ''codeBlockTheme'' = None \<and>
          getOptionMap emptyStore ''theme'' = None \<longrightarrow>
          getOptionMap s1 ''codeBlockTheme'' = Some ''default:stackoverflow-dark''"
    by blast+
  from 2 d e have 4: "mkOption ''codeBlockTheme'' ''default:stackoverflow-dark'' False \<in> set (becca_options s1)"
    by force
  from 3 have 5: "getOptionMap s1 ''codeBlockTheme'' = Some ''default:stackoverflow-dark''"
    by (simp add: m)
  from l 1 i 4 5 show ?thesis by blast
qed

end
